theory Spec2Isabelle
  imports Complex_Main
begin

section \<open>JavaScript values and errors\<close>

text \<open>
  The service of \<^verbatim>\<open>lib/openai.ts\<close> (class \<^verbatim>\<open>AIService\<close>) works on JavaScript strings and
  on values decoded from JSON. A string is modelled as a \<^typ>\<open>string\<close>, one \<^typ>\<open>char\<close> for
  each code unit, so \<^const>\<open>length\<close> is the \<^verbatim>\<open>.length\<close> of the source. A decoded JSON
  value is a \<open>json\<close>; an object holds its own properties, each name once (the decoder has
  resolved duplicates). The value \<^verbatim>\<open>undefined\<close> is \<^const>\<open>None\<close> of \<open>jsval\<close>.
\<close>

datatype json =
    JNull
  | JBool bool
  | JNum rat
  | JStr string
  | JArr "json list"
  | JObj "(string \<times> json) list"

type_synonym jsval = "json option"

text \<open>
  What the source can throw: \<^verbatim>\<open>new Error(msg)\<close> of the repository, a \<^verbatim>\<open>TypeError\<close> raised
  by the engine on a property read of \<^verbatim>\<open>null\<close> or \<^verbatim>\<open>undefined\<close> (its message is the
  engine's), and a rejection of the platform (\<^verbatim>\<open>fetch\<close>, the body reader) with its name
  and message.
\<close>

datatype js_error =
    Error string
  | TypeError
  | Rejected string string

fun error_name :: "js_error \<Rightarrow> string" where
  "error_name (Error m) = ''Error''"
| "error_name TypeError = ''TypeError''"
| "error_name (Rejected n m) = n"

text \<open>Truthiness of a value, as \<^verbatim>\<open>if (v)\<close> and \<^verbatim>\<open>v || w\<close> test it.\<close>

fun truthy :: "jsval \<Rightarrow> bool" where
  "truthy None = False"
| "truthy (Some JNull) = False"
| "truthy (Some (JBool b)) = b"
| "truthy (Some (JNum n)) = (n \<noteq> 0)"
| "truthy (Some (JStr s)) = (s \<noteq> [])"
| "truthy (Some (JArr xs)) = True"
| "truthy (Some (JObj kvs)) = True"

text \<open>
  Property reads. The names read by the source (\<^verbatim>\<open>choices\<close>, \<^verbatim>\<open>delta\<close>, \<^verbatim>\<open>content\<close>,
  \<^verbatim>\<open>message\<close>, \<^verbatim>\<open>error\<close>) are defined by no prototype, so only an object's own property
  answers them. \<open>own_prop\<close> is the read on a value that is neither \<^verbatim>\<open>null\<close> nor
  \<^verbatim>\<open>undefined\<close>; \<open>dot\<close> is \<^verbatim>\<open>v.k\<close>, which throws on those two; \<open>opt_dot\<close> is \<^verbatim>\<open>v?.k\<close>;
  \<open>index0\<close> is \<^verbatim>\<open>v[0]\<close>.
\<close>

fun own_prop :: "json \<Rightarrow> string \<Rightarrow> jsval" where
  "own_prop (JObj kvs) k = map_of kvs k"
| "own_prop v k = None"

fun dot :: "jsval \<Rightarrow> string \<Rightarrow> js_error + jsval" where
  "dot None k = Inl TypeError"
| "dot (Some JNull) k = Inl TypeError"
| "dot (Some v) k = Inr (own_prop v k)"

fun opt_dot :: "jsval \<Rightarrow> string \<Rightarrow> jsval" where
  "opt_dot None k = None"
| "opt_dot (Some JNull) k = None"
| "opt_dot (Some v) k = own_prop v k"

fun index0 :: "jsval \<Rightarrow> js_error + jsval" where
  "index0 None = Inl TypeError"
| "index0 (Some JNull) = Inl TypeError"
| "index0 (Some (JArr xs)) = Inr (case xs of [] \<Rightarrow> None | x # _ \<Rightarrow> Some x)"
| "index0 (Some (JStr s)) = Inr (case s of [] \<Rightarrow> None | c # _ \<Rightarrow> Some (JStr [c]))"
| "index0 (Some (JObj kvs)) = Inr (map_of kvs ''0'')"
| "index0 (Some v) = Inr None"

text \<open>
  String conversion in a template literal and in \<^verbatim>\<open>Array.prototype.join\<close>. A string
  converts to itself; the conversion of the other values is the engine's and is the
  parameter \<open>tostr\<close>. \<^verbatim>\<open>join\<close> writes \<^verbatim>\<open>null\<close> and \<^verbatim>\<open>undefined\<close> as the empty string.
\<close>

fun template :: "(json \<Rightarrow> string) \<Rightarrow> jsval \<Rightarrow> string" where
  "template tostr None = ''undefined''"
| "template tostr (Some (JStr s)) = s"
| "template tostr (Some v) = tostr v"

fun join_item :: "(json \<Rightarrow> string) \<Rightarrow> jsval \<Rightarrow> string" where
  "join_item tostr None = []"
| "join_item tostr (Some JNull) = []"
| "join_item tostr (Some (JStr s)) = s"
| "join_item tostr (Some v) = tostr v"

fun join :: "string \<Rightarrow> string list \<Rightarrow> string" where
  "join sep [] = []"
| "join sep [x] = x"
| "join sep (x # y # ys) = x @ sep @ join sep (y # ys)"

section \<open>Configuration and construction\<close>

record APIConfig =
  baseURL :: string
  apiKey :: string
  model :: string

datatype provider = Openai | Deepseek

text \<open>
  A request as the transport sees it: the URL, the bearer header and the JSON body of
  \<^verbatim>\<open>generateResponse\<close> and \<^verbatim>\<open>generateStreamingResponse\<close>. \<open>req_stream\<close> is the body's
  \<^verbatim>\<open>stream\<close> field, absent in the buffered call. Every operation threads the list of
  the requests issued so far. \<open>req_timeout_ms\<close> is the bound after which the call is
  given up (the \<^verbatim>\<open>timeout\<close> of the buffered call, the abort timer of the streaming one).
\<close>

record request =
  req_url :: string
  req_authorization :: string
  req_model :: string
  req_content :: string
  req_temperature :: rat
  req_max_tokens :: nat
  req_stream :: "bool option"
  req_timeout_ms :: nat

text \<open>\<^verbatim>\<open>/^(sk-|ds-)[\w-]{10,}$/.test(key)\<close>; \<^verbatim>\<open>\w\<close> is a letter, a digit or an underscore.\<close>

definition is_word_char :: "char \<Rightarrow> bool" where
  "is_word_char c =
     (let n = (of_char c :: nat)
      in (48 \<le> n \<and> n \<le> 57) \<or> (65 \<le> n \<and> n \<le> 90) \<or> n = 95 \<or> (97 \<le> n \<and> n \<le> 122))"

definition is_key_char :: "char \<Rightarrow> bool" where
  "is_key_char c = (is_word_char c \<or> c = CHR ''-'')"

definition validateApiKey :: "string \<Rightarrow> bool" where
  "validateApiKey key =
     ((take 3 key = ''sk-'' \<or> take 3 key = ''ds-'') \<and>
      10 \<le> length (drop 3 key) \<and> list_all is_key_char (drop 3 key))"

definition AIService :: "string \<Rightarrow> provider \<Rightarrow> request list \<Rightarrow> (js_error + APIConfig) \<times> request list" where
  "AIService key p reqs =
     (if \<not> validateApiKey key then (Inl (Error ''Invalid API key format''), reqs)
      else (Inr \<lparr> baseURL = (if p = Deepseek then ''https://api.deepseek.com/v1''
                              else ''https://api.openai.com/v1''),
                  apiKey = key,
                  model = (if p = Deepseek then ''deepseek-chat'' else ''gpt-3.5-turbo'') \<rparr>,
            reqs))"

text \<open>\<^verbatim>\<open>createAIService\<close>: the provider defaults to \<^verbatim>\<open>'openai'\<close> when it is not given.\<close>

definition createAIService :: "string \<Rightarrow> provider option \<Rightarrow> request list \<Rightarrow> (js_error + APIConfig) \<times> request list" where
  "createAIService key p reqs = AIService key (case p of None \<Rightarrow> Openai | Some q \<Rightarrow> q) reqs"

text \<open>
  The store of \<^verbatim>\<open>store/openai.ts\<close>: \<^verbatim>\<open>setApiKey\<close> constructs the service and records the
  message of a construction error instead of rethrowing it (the constructor throws
  nothing but \<^verbatim>\<open>new Error\<close>).
\<close>

record OpenAIStore =
  st_apiKey :: "string option"
  st_service :: "APIConfig option"
  st_error :: "string option"

definition setApiKey :: "string \<Rightarrow> provider option \<Rightarrow> OpenAIStore \<times> request list \<Rightarrow> OpenAIStore \<times> request list" where
  "setApiKey key p s =
     (case createAIService key p (snd s) of
        (Inr service, reqs) \<Rightarrow> (\<lparr> st_apiKey = Some key, st_service = Some service, st_error = None \<rparr>, reqs)
      | (Inl e, reqs) \<Rightarrow>
          (\<lparr> st_apiKey = None, st_service = None,
             st_error = (case e of Error m \<Rightarrow> Some m | _ \<Rightarrow> Some ''Invalid API key'') \<rparr>, reqs))"

section \<open>The buffered completion\<close>

text \<open>
  What \<^verbatim>\<open>axios.post\<close> can do: resolve with the decoded \<^verbatim>\<open>response.data\<close>, reject with an
  axios error (its \<^verbatim>\<open>code\<close>, its \<^verbatim>\<open>response\<close> with status and data when the provider
  answered, its \<^verbatim>\<open>message\<close>), or fail with something that is no axios error. The mock
  transport answers the \<open>n\<close>-th request with such an outcome and the time at which it
  settles, counted from the moment the request is issued.
\<close>

record axios_error =
  ax_code :: "string option"
  ax_response :: "(nat \<times> json) option"
  ax_message :: string

datatype post_outcome =
    Resolved json
  | AxiosError axios_error
  | Thrown js_error

type_synonym transport = "nat \<Rightarrow> request \<Rightarrow> nat \<times> post_outcome"

fun thenE :: "'e + 'a \<Rightarrow> ('a \<Rightarrow> 'e + 'b) \<Rightarrow> 'e + 'b" where
  "thenE (Inl e) f = Inl e"
| "thenE (Inr x) f = f x"

text \<open>\<^verbatim>\<open>String.prototype.trim\<close> on the code units a \<^typ>\<open>char\<close> can hold.\<close>

definition is_js_space :: "char \<Rightarrow> bool" where
  "is_js_space c = (of_char c \<in> {9, 10, 11, 12, 13, 32, 160 :: nat})"

definition trim :: "string \<Rightarrow> string" where
  "trim s = rev (dropWhile is_js_space (rev (dropWhile is_js_space s)))"

definition chat_request :: "APIConfig \<Rightarrow> string \<Rightarrow> bool option \<Rightarrow> request" where
  "chat_request cfg prompt stream =
     \<lparr> req_url = baseURL cfg @ ''/chat/completions'',
       req_authorization = ''Bearer '' @ apiKey cfg,
       req_model = model cfg,
       req_content = prompt,
       req_temperature = 7 / 10,
       req_max_tokens = 1000,
       req_stream = stream,
       req_timeout_ms = 30000 \<rparr>"

text \<open>\<^verbatim>\<open>response.data.choices[0].message.content\<close>\<close>

definition response_content :: "json \<Rightarrow> js_error + jsval" where
  "response_content d =
     thenE (thenE (thenE (dot (Some d) ''choices'') index0) (\<lambda>c. dot c ''message''))
       (\<lambda>m. dot m ''content'')"

text \<open>The \<^verbatim>\<open>catch\<close> block of \<^verbatim>\<open>generateResponse\<close> on an axios error, in the source's order.\<close>

definition classify_axios :: "(json \<Rightarrow> string) \<Rightarrow> axios_error \<Rightarrow> js_error" where
  "classify_axios tostr e =
     (if ax_code e = Some ''ECONNABORTED'' then Error ''Request timed out. Please try again.''
      else if map_option fst (ax_response e) = Some 401
        then Error ''Invalid API key. Please check your API key and try again.''
      else if map_option fst (ax_response e) = Some 429
        then Error ''Rate limit exceeded. Please try again in a few moments.''
      else Error (''API error: '' @
        (let m = opt_dot (opt_dot (map_option snd (ax_response e)) ''error'') ''message''
         in if truthy m then template tostr m else ax_message e)))"

definition generateResponse ::
  "APIConfig \<Rightarrow> (json \<Rightarrow> string) \<Rightarrow> transport \<Rightarrow> string \<Rightarrow> request list \<Rightarrow>
     (nat \<times> (js_error + jsval)) \<times> request list" where
  "generateResponse cfg tostr net prompt reqs =
     (if trim prompt = [] then
        ((0, Inr (Some (JStr ''No content to analyze. Please provide input.''))), reqs)
      else
        (let req = chat_request cfg prompt None;
             reply = net (length reqs) req
         in ((fst reply,
              (case snd reply of
                 Resolved d \<Rightarrow>
                   (case response_content d of
                      Inr v \<Rightarrow> Inr v
                    | Inl e \<Rightarrow> Inl (Error ''Failed to connect to API. Please try again.''))
               | AxiosError e \<Rightarrow> Inl (classify_axios tostr e)
               | Thrown e \<Rightarrow> Inl (Error ''Failed to connect to API. Please try again.''))),
             reqs @ [req])))"

section \<open>Summaries of chunked documents\<close>

text \<open>
  Modelled from the spec: \<^verbatim>\<open>chunkText\<close> of \<^verbatim>\<open>lib/utils\<close> is imported by the service and is
  not among the sources. The specification's \<^verbatim>\<open>splitDocument(text, chunkSizeBudget)\<close> is a
  deterministic, lossless split on a fixed character budget: successive pieces of
  \<open>budget\<close> characters, the last one shorter when the length is no multiple of it. The
  specification speaks of budgets above zero only; the model yields no chunk for budget
  zero.
\<close>

function splitDocument :: "string \<Rightarrow> nat \<Rightarrow> string list" where
  "splitDocument text budget =
     (if budget = 0 \<or> text = [] then []
      else take budget text # splitDocument (drop budget text) budget)"
  by pat_completeness auto
termination
  by (relation "measure (\<lambda>(text, budget). length text)") auto

declare splitDocument.simps [simp del]

text \<open>The chunker with its budget first, to be handed to \<^verbatim>\<open>generateSummary\<close>.\<close>

definition chunks_of :: "nat \<Rightarrow> string \<Rightarrow> string list" where
  "chunks_of budget doc = splitDocument doc budget"

text \<open>
  \<^verbatim>\<open>Promise.all\<close> over promises that each settle at a known time: it rejects with the
  reason of the promise that rejects first (of two that reject at the same time, the
  one issued first), and resolves with all the values, in the promises' order, when
  none rejects.
\<close>

fun first_rejection :: "(nat \<times> ('e + 'a)) list \<Rightarrow> (nat \<times> 'e) option" where
  "first_rejection [] = None"
| "first_rejection ((t, Inr v) # ps) = first_rejection ps"
| "first_rejection ((t, Inl e) # ps) =
     (case first_rejection ps of
        None \<Rightarrow> Some (t, e)
      | Some (t', e') \<Rightarrow> if t' < t then Some (t', e') else Some (t, e))"

fun resolved_values :: "(nat \<times> ('e + 'a)) list \<Rightarrow> 'a list" where
  "resolved_values [] = []"
| "resolved_values ((t, Inr v) # ps) = v # resolved_values ps"
| "resolved_values ((t, Inl e) # ps) = resolved_values ps"

definition promise_all :: "(nat \<times> ('e + 'a)) list \<Rightarrow> 'e + 'a list" where
  "promise_all ps =
     (case first_rejection ps of Some (t, e) \<Rightarrow> Inl e | None \<Rightarrow> Inr (resolved_values ps))"

text \<open>
  \<^verbatim>\<open>chunks.map(chunk => this.generateResponse(...))\<close>: the calls are issued one after the
  other, in the chunks' order, before any of them is awaited.
\<close>

fun issue_all ::
  "(string \<Rightarrow> request list \<Rightarrow> 'r \<times> request list) \<Rightarrow> string list \<Rightarrow> request list \<Rightarrow>
     'r list \<times> request list" where
  "issue_all f [] reqs = ([], reqs)"
| "issue_all f (c # cs) reqs =
     (let r = f c reqs; rs = issue_all f cs (snd r) in (fst r # fst rs, snd rs))"

definition section_prompt :: "string \<Rightarrow> string" where
  "section_prompt chunk =
     ''Please provide a very concise summary of this text section:'' @ [CHR 0x0A, CHR 0x0A] @ chunk"

definition merge_prompt :: "string \<Rightarrow> string" where
  "merge_prompt combinedSummary =
     ''Please provide a final concise summary combining these section summaries:'' @
       [CHR 0x0A, CHR 0x0A] @ combinedSummary"

definition section_request :: "APIConfig \<Rightarrow> string \<Rightarrow> request" where
  "section_request cfg chunk = chat_request cfg (section_prompt chunk) None"

definition chunk_calls ::
  "APIConfig \<Rightarrow> (json \<Rightarrow> string) \<Rightarrow> transport \<Rightarrow> string list \<Rightarrow> request list \<Rightarrow>
     (nat \<times> (js_error + jsval)) list \<times> request list" where
  "chunk_calls cfg tostr net chunks reqs =
     issue_all (\<lambda>chunk. generateResponse cfg tostr net (section_prompt chunk)) chunks reqs"

text \<open>
  \<^verbatim>\<open>generateSummary\<close>; the chunker is a parameter, since \<^verbatim>\<open>chunkText\<close> and its default
  budget are not among the sources.
\<close>

definition generateSummary ::
  "APIConfig \<Rightarrow> (json \<Rightarrow> string) \<Rightarrow> transport \<Rightarrow> (string \<Rightarrow> string list) \<Rightarrow> string \<Rightarrow>
     request list \<Rightarrow> (js_error + jsval) \<times> request list" where
  "generateSummary cfg tostr net chunkText text reqs =
     (let calls = chunk_calls cfg tostr net (chunkText text) reqs
      in case promise_all (fst calls) of
           Inl e \<Rightarrow> (Inl e, snd calls)
         | Inr summaries \<Rightarrow>
             (let combinedSummary = join [CHR 0x0A, CHR 0x0A] (map (join_item tostr) summaries)
              in if length combinedSummary > 4000 then
                   (let r = generateResponse cfg tostr net (merge_prompt combinedSummary) (snd calls)
                    in (snd (fst r), snd r))
                 else (Inr (Some (JStr combinedSummary)), snd calls)))"

section \<open>The streaming completion\<close>

text \<open>
  What \<^verbatim>\<open>fetch\<close> can do: reject (with \<^verbatim>\<open>AbortError\<close> when the abort timer fired), or
  resolve with a response: its \<^verbatim>\<open>ok\<close> flag and status, the result of \<^verbatim>\<open>response.json()\<close>
  (\<^const>\<open>None\<close> when that rejects), and its body reader (\<^const>\<open>None\<close> when there is no
  body). The reader is the list of what its \<^verbatim>\<open>read()\<close> calls give, a value or a
  rejection, and reports \<^verbatim>\<open>done\<close> at the end of the list. A value is given as the text
  the streaming \<^verbatim>\<open>TextDecoder\<close> makes of it.
\<close>

datatype read_event =
    ReadValue string
  | ReadRejected js_error

record http_response =
  resp_ok :: bool
  resp_status :: nat
  resp_json :: "json option"
  resp_body :: "read_event list option"

datatype fetch_outcome =
    FetchRejected js_error
  | FetchResponse http_response

type_synonym fetcher = "nat \<Rightarrow> request \<Rightarrow> fetch_outcome"

text \<open>\<^verbatim>\<open>buffer.split('\n')\<close>: the pieces between line feeds, one more than there are line feeds.\<close>

fun split_nl :: "string \<Rightarrow> string list" where
  "split_nl [] = [[]]"
| "split_nl (c # cs) =
     (if c = CHR 0x0A then [] # split_nl cs
      else (case split_nl cs of [] \<Rightarrow> [[c]] | l # ls \<Rightarrow> (c # l) # ls))"

text \<open>\<^verbatim>\<open>json.choices[0]?.delta?.content\<close>\<close>

definition frame_content :: "json \<Rightarrow> js_error + jsval" where
  "frame_content j =
     thenE (thenE (dot (Some j) ''choices'') index0)
       (\<lambda>c. Inr (opt_dot (opt_dot c ''delta'') ''content''))"

text \<open>
  The body of the \<^verbatim>\<open>for\<close> loop on one line: what it passes to \<^verbatim>\<open>onChunk\<close>, nothing or one
  value. \<open>parse\<close> is \<^verbatim>\<open>JSON.parse\<close>, \<^const>\<open>None\<close> where it throws; an exception of the
  \<^verbatim>\<open>try\<close> block is caught and logged.
\<close>

definition process_line :: "(string \<Rightarrow> json option) \<Rightarrow> string \<Rightarrow> json list" where
  "process_line parse line =
     (if take 6 line = ''data: '' \<and> line \<noteq> ''data: [DONE]'' then
        (case parse (drop 6 line) of
           None \<Rightarrow> []
         | Some j \<Rightarrow>
             (case frame_content j of
                Inl e \<Rightarrow> []
              | Inr None \<Rightarrow> []
              | Inr (Some content) \<Rightarrow> if truthy (Some content) then [content] else []))
      else [])"

text \<open>
  The \<^verbatim>\<open>while (true)\<close> loop, with the buffer and the values passed to \<^verbatim>\<open>onChunk\<close> so far.
  The function has no \<^verbatim>\<open>return\<close> statement: when the reader reports \<^verbatim>\<open>done\<close> it ends
  with \<^verbatim>\<open>undefined\<close>, and what is left in the buffer is dropped.
\<close>

fun stream_loop ::
  "(string \<Rightarrow> json option) \<Rightarrow> string \<Rightarrow> json list \<Rightarrow> read_event list \<Rightarrow>
     json list \<times> (js_error + jsval)" where
  "stream_loop parse buffer chunks [] = (chunks, Inr None)"
| "stream_loop parse buffer chunks (ReadRejected e # evs) = (chunks, Inl e)"
| "stream_loop parse buffer chunks (ReadValue v # evs) =
     (let lines = split_nl (buffer @ v)
      in stream_loop parse
           (if lines = [] then [] else last lines)
           (chunks @ concat (map (process_line parse) (butlast lines)))
           evs)"

text \<open>The outer \<^verbatim>\<open>catch\<close>: an abort becomes the timeout error, anything else is rethrown.\<close>

definition rethrow :: "js_error \<Rightarrow> js_error" where
  "rethrow e =
     (if error_name e = ''AbortError'' then Error ''Request timed out. Please try again.'' else e)"

text \<open>Decimal digits of a number, for the status in the message of an HTTP error.\<close>

fun show_nat :: "nat \<Rightarrow> string" where
  "show_nat n =
     (if n < 10 then [char_of (48 + n)] else show_nat (n div 10) @ [char_of (48 + n mod 10)])"

declare show_nat.simps [simp del]

definition http_error :: "(json \<Rightarrow> string) \<Rightarrow> http_response \<Rightarrow> js_error" where
  "http_error tostr r =
     (let errorData = (case resp_json r of None \<Rightarrow> JObj [] | Some j \<Rightarrow> j)
      in case dot (Some errorData) ''error'' of
           Inl e \<Rightarrow> e
         | Inr er \<Rightarrow>
             (let m = opt_dot er ''message''
              in Error (''HTTP error! status: '' @ show_nat (resp_status r) @ '', message: '' @
                   (if truthy m then template tostr m else ''Unknown error''))))"

text \<open>
  \<^verbatim>\<open>generateStreamingResponse\<close>: the values passed to \<^verbatim>\<open>onChunk\<close>, in order, with how the
  call ends, and the requests issued.
\<close>

definition generateStreamingResponse ::
  "APIConfig \<Rightarrow> (string \<Rightarrow> json option) \<Rightarrow> (json \<Rightarrow> string) \<Rightarrow> fetcher \<Rightarrow> string \<Rightarrow>
     request list \<Rightarrow> (json list \<times> (js_error + jsval)) \<times> request list" where
  "generateStreamingResponse cfg parse tostr fetch prompt reqs =
     (let req = chat_request cfg prompt (Some True)
      in ((case fetch (length reqs) req of
             FetchRejected e \<Rightarrow> ([], Inl (rethrow e))
           | FetchResponse response \<Rightarrow>
               if \<not> resp_ok response then ([], Inl (rethrow (http_error tostr response)))
               else
                 (case resp_body response of
                    None \<Rightarrow> ([], Inl (rethrow (Error ''No reader available'')))
                  | Some reader \<Rightarrow>
                      (case stream_loop parse [] [] reader of
                         (chunks, Inl e) \<Rightarrow> (chunks, Inl (rethrow e))
                       | (chunks, Inr v) \<Rightarrow> (chunks, Inr v)))),
          reqs @ [req]))"

section \<open>Simulated transports\<close>

text \<open>
  A transport that emits lines: the text of the stream is each line followed by a line
  feed, and a line holds no line feed itself. The reads of the body may cut that text
  anywhere.
\<close>

definition emit_lines :: "string list \<Rightarrow> string" where
  "emit_lines ls = concat (map (\<lambda>l. l @ [CHR 0x0A]) ls)"

definition line_feed_free :: "string \<Rightarrow> bool" where
  "line_feed_free l = (CHR 0x0A \<notin> set l)"

text \<open>The transport that opens the stream with status 200 and whose reader gives \<open>reads\<close>.\<close>

definition simulated_stream :: "string list \<Rightarrow> fetcher" where
  "simulated_stream reads n req =
     FetchResponse \<lparr> resp_ok = True, resp_status = 200, resp_json = None,
                     resp_body = Some (map ReadValue reads) \<rparr>"

text \<open>The transport of the buffered call that answers every request alike.\<close>

definition constant_reply :: "post_outcome \<Rightarrow> transport" where
  "constant_reply out n req = (0, out)"

text \<open>The transport that answers the \<open>n\<close>-th request with the \<open>n\<close>-th response of a list.\<close>

definition numbered_reply :: "json list \<Rightarrow> transport" where
  "numbered_reply ds n req =
     (0, if n < length ds then Resolved (ds ! n) else Thrown (Rejected ''Error'' ''no reply''))"

text \<open>A streaming frame and a buffered response that carry a text.\<close>

definition delta_value :: "string \<Rightarrow> json" where
  "delta_value s = JObj [(''choices'', JArr [JObj [(''delta'', JObj [(''content'', JStr s)])]])]"

definition message_value :: "string \<Rightarrow> json" where
  "message_value s = JObj [(''choices'', JArr [JObj [(''message'', JObj [(''content'', JStr s)])]])]"

text \<open>
  Stand-ins for the engine on the examples: a decoder that knows two frames, and a
  string conversion of the values that are no strings.
\<close>

definition example_parse :: "string \<Rightarrow> json option" where
  \<open>example_parse s =
     (if s = ''{"choices":[{"delta":{"content":"Hel"}}]}'' then Some (delta_value ''Hel'')
      else if s = ''{"choices":[{"delta":{"content":"lo"}}]}'' then Some (delta_value ''lo'')
      else None)\<close>

definition hel_line :: string where
  \<open>hel_line = ''data: {"choices":[{"delta":{"content":"Hel"}}]}''\<close>

definition lo_line :: string where
  \<open>lo_line = ''data: {"choices":[{"delta":{"content":"lo"}}]}''\<close>

definition example_tostr :: "json \<Rightarrow> string" where
  "example_tostr v = ''[object Object]''"

definition example_config :: APIConfig where
  "example_config =
     \<lparr> baseURL = ''https://api.openai.com/v1'', apiKey = ''sk-abcDEF_123-xyz'',
       model = ''gpt-3.5-turbo'' \<rparr>"

text \<open>Axios errors and responses of the examples.\<close>

definition timeout_error :: axios_error where
  "timeout_error =
     \<lparr> ax_code = Some ''ECONNABORTED'', ax_response = None,
       ax_message = ''timeout of 30000ms exceeded'' \<rparr>"

definition unauthorized_error :: axios_error where
  "unauthorized_error =
     \<lparr> ax_code = Some ''ERR_BAD_REQUEST'',
       ax_response = Some (401, JObj [(''error'', JObj [(''message'', JStr ''Incorrect API key provided'')])]),
       ax_message = ''Request failed with status code 401'' \<rparr>"

definition server_error :: axios_error where
  "server_error =
     \<lparr> ax_code = Some ''ERR_BAD_RESPONSE'',
       ax_response = Some (500, JObj [(''error'', JObj [(''message'', JStr ''server exploded'')])]),
       ax_message = ''Request failed with status code 500'' \<rparr>"

definition network_error :: axios_error where
  "network_error =
     \<lparr> ax_code = Some ''ERR_NETWORK'', ax_response = None, ax_message = ''Network Error'' \<rparr>"

definition contentless_response :: json where
  "contentless_response = JObj [(''choices'', JArr [JObj [(''message'', JObj [])]])]"

text \<open>Summaries and a document of the examples.\<close>

definition long_summary :: string where
  "long_summary = replicate 2000 (CHR ''s'')"

definition near_summary :: string where
  "near_summary = replicate 1999 (CHR ''s'')"

definition short_summary :: string where
  "short_summary = replicate 50 (CHR ''s'')"

definition long_document :: string where
  "long_document = replicate 9000 (CHR ''d'')"

text \<open>
  The expected shape of a buffered response in the specification's words: its
  \<^verbatim>\<open>choices[0].message.content\<close> is a string.
\<close>

definition expected_shape :: "json \<Rightarrow> bool" where
  "expected_shape d = (case response_content d of Inr (Some (JStr s)) \<Rightarrow> True | _ \<Rightarrow> False)"

text \<open>The recognized shape in the specification's words, to compare with the regular expression.\<close>

definition recognized_shape :: "string \<Rightarrow> bool" where
  "recognized_shape key =
     (\<exists>rest. (key = ''sk-'' @ rest \<or> key = ''ds-'' @ rest) \<and> 10 \<le> length rest \<and>
        set rest \<subseteq> {c. is_word_char c \<or> c = CHR ''-''})"

section \<open>Construction\<close>

lemma validateApiKey_shape: "validateApiKey key = recognized_shape key"
proof
  assume v: "validateApiKey key"
  have k: "key = take 3 key @ drop 3 key" by simp
  from v have "key = ''sk-'' @ drop 3 key \<or> key = ''ds-'' @ drop 3 key"
    unfolding validateApiKey_def using k by metis
  with v show "recognized_shape key"
    unfolding validateApiKey_def recognized_shape_def is_key_char_def list_all_iff
    by (intro exI [of _ "drop 3 key"]) blast
next
  assume "recognized_shape key"
  then show "validateApiKey key"
    unfolding validateApiKey_def recognized_shape_def is_key_char_def list_all_iff
    by auto
qed

section \<open>Blank prompts\<close>

lemma dropWhile_all_iff: "(\<forall>x\<in>set (dropWhile P s). P x) \<longleftrightarrow> (\<forall>x\<in>set s. P x)"
proof
  assume a: "\<forall>x\<in>set (dropWhile P s). P x"
  have "dropWhile P s = []"
  proof (rule ccontr)
    assume n: "dropWhile P s \<noteq> []"
    then have "\<not> P (hd (dropWhile P s))" by (rule hd_dropWhile)
    moreover from n have "hd (dropWhile P s) \<in> set (dropWhile P s)" by simp
    ultimately show False using a by blast
  qed
  then show "\<forall>x\<in>set s. P x" by (simp add: dropWhile_eq_Nil_conv)
next
  assume "\<forall>x\<in>set s. P x"
  then show "\<forall>x\<in>set (dropWhile P s). P x" by (meson set_dropWhileD)
qed

lemma trim_eq_Nil: "trim s = [] \<longleftrightarrow> list_all is_js_space s"
  by (simp add: trim_def list_all_iff dropWhile_all_iff)

section \<open>Splitting lines\<close>

lemma split_nl_nonempty: "split_nl s \<noteq> []"
  by (induction s) (auto split: list.splits)

lemma split_nl_append:
  "split_nl (x @ y) = butlast (split_nl x) @ split_nl (last (split_nl x) @ y)"
proof (induction x)
  case Nil
  then show ?case by simp
next
  case (Cons c cs)
  obtain l ls where s: "split_nl cs = l # ls"
    using split_nl_nonempty [of cs] by (cases "split_nl cs") auto
  show ?case
  proof (cases "c = CHR 0x0A")
    case True
    with Cons s show ?thesis by simp
  next
    case False
    show ?thesis
    proof (cases ls)
      case Nil
      with Cons s False show ?thesis by simp
    next
      case (Cons l' ls')
      with Cons.IH s False show ?thesis by simp
    qed
  qed
qed

lemma split_nl_line: "line_feed_free l \<Longrightarrow> split_nl l = [l]"
  by (induction l) (auto simp: line_feed_free_def)

lemma split_nl_line_feed:
  "line_feed_free l \<Longrightarrow> split_nl (l @ CHR 0x0A # rest) = l # split_nl rest"
  by (induction l) (auto simp: line_feed_free_def)

lemma split_nl_emit_lines:
  "list_all line_feed_free ls \<Longrightarrow> split_nl (emit_lines ls) = ls @ [[]]"
proof (induction ls)
  case Nil
  then show ?case by (simp add: emit_lines_def)
next
  case (Cons l ls)
  have "emit_lines (l # ls) = l @ CHR 0x0A # emit_lines ls"
    by (simp add: emit_lines_def)
  with Cons show ?case by (simp add: split_nl_line_feed)
qed

lemma last_split_nl_free: "line_feed_free (last (split_nl s))"
proof (induction s)
  case Nil
  then show ?case by (simp add: line_feed_free_def)
next
  case (Cons c cs)
  obtain l ls where s: "split_nl cs = l # ls"
    using split_nl_nonempty [of cs] by (cases "split_nl cs") auto
  with Cons show ?case by (cases ls) (auto simp: line_feed_free_def)
qed

section \<open>The frame loop\<close>

text \<open>
  However the reads cut the text, the loop passes to \<^verbatim>\<open>onChunk\<close> what the complete lines
  of the whole text give, line by line, and ends without a value.
\<close>

lemma stream_loop_values:
  "line_feed_free buffer \<Longrightarrow>
   stream_loop parse buffer chunks (map ReadValue reads) =
     (chunks @ concat (map (process_line parse) (butlast (split_nl (buffer @ concat reads)))),
      Inr None)"
proof (induction reads arbitrary: buffer chunks)
  case Nil
  then show ?case by (simp add: split_nl_line)
next
  case (Cons v reads)
  let ?lines = "split_nl (buffer @ v)"
  have ne: "?lines \<noteq> []" by (rule split_nl_nonempty)
  have "split_nl (buffer @ concat (v # reads)) =
      butlast ?lines @ split_nl (last ?lines @ concat reads)"
    using split_nl_append [of "buffer @ v" "concat reads"] by simp
  then have "butlast (split_nl (buffer @ concat (v # reads))) =
      butlast ?lines @ butlast (split_nl (last ?lines @ concat reads))"
    by (simp add: butlast_append split_nl_nonempty)
  with ne show ?case
    by (simp add: Cons.IH last_split_nl_free Let_def)
qed

lemma stream_loop_lines:
  assumes "list_all line_feed_free ls" and "concat reads = emit_lines ls"
  shows "stream_loop parse [] [] (map ReadValue reads) =
           (concat (map (process_line parse) ls), Inr None)"
  using assms stream_loop_values [of "[]" parse "[]" reads]
  by (simp add: split_nl_emit_lines line_feed_free_def)

lemma streaming_lines:
  assumes "list_all line_feed_free ls" and "concat reads = emit_lines ls"
  shows "generateStreamingResponse cfg parse tostr (simulated_stream reads) prompt reqs =
           ((concat (map (process_line parse) ls), Inr None),
            reqs @ [chat_request cfg prompt (Some True)])"
  using stream_loop_lines [OF assms, of parse]
  by (simp add: generateStreamingResponse_def simulated_stream_def)

section \<open>Calls of the chunked summary\<close>

lemma response_content_message [simp]:
  "response_content (message_value s) = Inr (Some (JStr s))"
  by (simp add: response_content_def message_value_def)

lemma section_prompt_nonblank [simp]: "trim (section_prompt chunk) \<noteq> []"
  by (simp add: trim_eq_Nil section_prompt_def is_js_space_def)

lemma merge_prompt_nonblank [simp]: "trim (merge_prompt s) \<noteq> []"
  by (simp add: trim_eq_Nil merge_prompt_def is_js_space_def)

lemma generateResponse_issues:
  "trim prompt \<noteq> [] \<Longrightarrow>
   snd (generateResponse cfg tostr net prompt reqs) = reqs @ [chat_request cfg prompt None]"
  by (simp add: generateResponse_def Let_def)

lemma chunk_calls_Nil [simp]: "chunk_calls cfg tostr net [] reqs = ([], reqs)"
  by (simp add: chunk_calls_def)

lemma chunk_calls_Cons:
  "chunk_calls cfg tostr net (c # cs) reqs =
     (let r = generateResponse cfg tostr net (section_prompt c) reqs;
          rs = chunk_calls cfg tostr net cs (snd r)
      in (fst r # fst rs, snd rs))"
  by (simp add: chunk_calls_def)

lemma chunk_calls_issued:
  "snd (chunk_calls cfg tostr net chunks reqs) = reqs @ map (section_request cfg) chunks"
  by (induction chunks arbitrary: reqs)
     (simp_all add: chunk_calls_Cons Let_def generateResponse_issues section_request_def)

lemma promise_all_Cons_resolved:
  "promise_all ((t, Inr v) # ps) = (case promise_all ps of Inl e \<Rightarrow> Inl e | Inr vs \<Rightarrow> Inr (v # vs))"
  by (simp add: promise_all_def split: option.splits)

lemma chunk_calls_resolved:
  assumes "length replies = length chunks"
    and "\<forall>i<length chunks.
           snd (net (length reqs + i) (section_request cfg (chunks ! i))) =
             Resolved (message_value (replies ! i))"
  shows "promise_all (fst (chunk_calls cfg tostr net chunks reqs)) =
           Inr (map (\<lambda>s. Some (JStr s)) replies)"
  using assms
proof (induction chunks arbitrary: replies reqs)
  case Nil
  then show ?case by (simp add: promise_all_def)
next
  case (Cons c cs)
  then obtain s ss where replies: "replies = s # ss" and len: "length ss = length cs"
    by (cases replies) auto
  let ?r = "generateResponse cfg tostr net (section_prompt c) reqs"
  from Cons.prems(2) have first: "snd (net (length reqs) (section_request cfg c)) = Resolved (message_value s)"
    using replies by fastforce
  have r: "snd (fst ?r) = Inr (Some (JStr s))" "snd ?r = reqs @ [section_request cfg c]"
    using first by (simp_all add: generateResponse_def Let_def section_request_def)
  have rest: "\<forall>i<length cs. snd (net (length (snd ?r) + i) (section_request cfg (cs ! i))) =
             Resolved (message_value (ss ! i))"
  proof (intro allI impI)
    fix i assume "i < length cs"
    then have "Suc i < length (c # cs)" by simp
    with Cons.prems(2) have "snd (net (length reqs + Suc i) (section_request cfg ((c # cs) ! Suc i))) =
             Resolved (message_value (replies ! Suc i))" by blast
    then show "snd (net (length (snd ?r) + i) (section_request cfg (cs ! i))) =
             Resolved (message_value (ss ! i))"
      using replies r(2) by simp
  qed
  have ih: "promise_all (fst (chunk_calls cfg tostr net cs (snd ?r))) = Inr (map (\<lambda>s. Some (JStr s)) ss)"
    by (rule Cons.IH [OF len rest])
  obtain t where t: "fst ?r = (t, Inr (Some (JStr s)))"
    using r(1) by (cases "fst ?r") auto
  show ?case
    by (simp add: chunk_calls_Cons Let_def t promise_all_Cons_resolved ih replies)
qed

section \<open>Claims on the streaming completion\<close>

lemma done_line_gives_nothing: "process_line parse ''data: [DONE]'' = []"
  by (simp add: process_line_def)

lemma unparsed_line_gives_nothing: "parse (drop 6 line) = None \<Longrightarrow> process_line parse line = []"
  by (simp add: process_line_def)

lemma hel_line_chunk: "process_line example_parse hel_line = [JStr ''Hel'']"
  by (simp add: example_parse_def process_line_def frame_content_def delta_value_def hel_line_def)

lemma lo_line_chunk: "process_line example_parse lo_line = [JStr ''lo'']"
  by (simp add: example_parse_def process_line_def frame_content_def delta_value_def lo_line_def)

lemma example_lines_free: "line_feed_free hel_line" "line_feed_free lo_line"
  "line_feed_free ''data: [DONE]''" "line_feed_free ''data: {not json''"
  by (simp_all add: line_feed_free_def hel_line_def lo_line_def)

lemma example_unparsed: "example_parse (drop 6 ''data: {not json'') = None"
  by (simp add: example_parse_def)

text \<open>
  Claim C1, as amended. For a simulated transport whose text is the frames \<open>f1 .. fn\<close>,
  each a line, followed by the terminal line \<^verbatim>\<open>data: [DONE]\<close>, and however the reads cut
  that text, \<^verbatim>\<open>generateStreamingResponse\<close> passes to \<^verbatim>\<open>onChunk\<close> exactly the decoded
  deltas of \<open>f1 .. fn\<close>, in that order. It issues one request and ends normally with no
  value: the function accumulates no text, and the callers do that in \<^verbatim>\<open>onChunk\<close>.
\<close>

theorem streaming_delivers_frames_in_order:
  assumes "list_all line_feed_free frames"
    and "concat reads = emit_lines (frames @ [''data: [DONE]''])"
  shows "generateStreamingResponse cfg parse tostr (simulated_stream reads) prompt reqs =
           ((concat (map (process_line parse) frames), Inr None),
            reqs @ [chat_request cfg prompt (Some True)])"
proof -
  from assms(1) have "list_all line_feed_free (frames @ [''data: [DONE]''])"
    by (simp add: line_feed_free_def)
  from streaming_lines [OF this assms(2)] show ?thesis
    by (simp add: done_line_gives_nothing)
qed

theorem streaming_delivers_frames_in_order_witness:
  "generateStreamingResponse example_config example_parse example_tostr
     (simulated_stream [take 20 (emit_lines [hel_line, lo_line, ''data: [DONE]'']),
                        drop 20 (emit_lines [hel_line, lo_line, ''data: [DONE]''])]) ''hi'' [] =
   (([JStr ''Hel'', JStr ''lo''], Inr None), [chat_request example_config ''hi'' (Some True)])"
proof -
  have f: "list_all line_feed_free [hel_line, lo_line]"
    by (simp add: example_lines_free)
  have r: "concat [take 20 (emit_lines [hel_line, lo_line, ''data: [DONE]'']),
                   drop 20 (emit_lines [hel_line, lo_line, ''data: [DONE]''])] =
           emit_lines ([hel_line, lo_line] @ [''data: [DONE]''])"
    by simp
  from streaming_delivers_frames_in_order [OF f r] show ?thesis
    by (simp add: hel_line_chunk lo_line_chunk)
qed

text \<open>
  The claim as written has the accumulated text returned. On the two frames that carry
  \<^verbatim>\<open>Hel\<close> and \<^verbatim>\<open>lo\<close> the deltas are delivered, and the value returned is not their
  concatenation.
\<close>

theorem streaming_returns_no_text:
  "fst (fst (generateStreamingResponse example_config example_parse example_tostr
     (simulated_stream [emit_lines [hel_line, lo_line, ''data: [DONE]'']]) ''hi'' [])) =
     [JStr ''Hel'', JStr ''lo''] \<and>
   snd (fst (generateStreamingResponse example_config example_parse example_tostr
     (simulated_stream [emit_lines [hel_line, lo_line, ''data: [DONE]'']]) ''hi'' [])) \<noteq>
     Inr (Some (JStr ''Hello''))"
proof -
  have f: "list_all line_feed_free [hel_line, lo_line, ''data: [DONE]'']"
    by (simp add: example_lines_free)
  have r: "concat [emit_lines [hel_line, lo_line, ''data: [DONE]'']] =
           emit_lines [hel_line, lo_line, ''data: [DONE]'']"
    by simp
  from streaming_lines [OF f r] show ?thesis
    by (simp add: hel_line_chunk lo_line_chunk done_line_gives_nothing)
qed

text \<open>
  Claim C5, as amended. The terminal line \<^verbatim>\<open>data: [DONE]\<close> is passed over: it delivers no
  chunk and does not end the loop. The lines after it are processed like the lines before
  it, until the reader reports \<^verbatim>\<open>done\<close>, and the call then ends normally.
\<close>

theorem terminal_line_does_not_end_stream:
  assumes "list_all line_feed_free (before @ after)"
    and "concat reads = emit_lines (before @ ''data: [DONE]'' # after)"
  shows "generateStreamingResponse cfg parse tostr (simulated_stream reads) prompt reqs =
           ((concat (map (process_line parse) before) @ concat (map (process_line parse) after),
             Inr None),
            reqs @ [chat_request cfg prompt (Some True)])"
proof -
  from assms(1) have "list_all line_feed_free (before @ ''data: [DONE]'' # after)"
    by (simp add: line_feed_free_def)
  from streaming_lines [OF this assms(2)] show ?thesis
    by (simp add: done_line_gives_nothing)
qed

theorem terminal_line_does_not_end_stream_witness:
  "generateStreamingResponse example_config example_parse example_tostr
     (simulated_stream [emit_lines [hel_line, ''data: [DONE]'', lo_line]]) ''hi'' [] =
   (([JStr ''Hel'', JStr ''lo''], Inr None), [chat_request example_config ''hi'' (Some True)])"
proof -
  have f: "list_all line_feed_free ([hel_line] @ [lo_line])"
    by (simp add: example_lines_free)
  have r: "concat [emit_lines [hel_line, ''data: [DONE]'', lo_line]] =
           emit_lines ([hel_line] @ ''data: [DONE]'' # [lo_line])"
    by simp
  from terminal_line_does_not_end_stream [OF f r] show ?thesis
    by (simp add: hel_line_chunk lo_line_chunk)
qed

text \<open>
  The claim as written has no chunk delivered after the terminal line. A data line that
  follows the terminal line in the transport's text is delivered.
\<close>

theorem chunk_after_terminal_line:
  "fst (fst (generateStreamingResponse example_config example_parse example_tostr
     (simulated_stream [emit_lines [''data: [DONE]'', lo_line]]) ''hi'' [])) = [JStr ''lo'']"
proof -
  have f: "list_all line_feed_free [''data: [DONE]'', lo_line]"
    by (simp add: example_lines_free)
  have r: "concat [emit_lines [''data: [DONE]'', lo_line]] = emit_lines [''data: [DONE]'', lo_line]"
    by simp
  from streaming_lines [OF f r] show ?thesis
    by (simp add: lo_line_chunk done_line_gives_nothing)
qed

text \<open>
  Claim C6. In a stream that holds a frame whose payload \<^verbatim>\<open>JSON.parse\<close> rejects, that
  frame passes nothing to \<^verbatim>\<open>onChunk\<close> and does not abort the stream: the call ends
  normally, and the frames before and after it are decoded and delivered in order.
\<close>

theorem malformed_frame_is_skipped:
  assumes "list_all line_feed_free (before @ bad # after)"
    and "take 6 bad = ''data: ''" and "parse (drop 6 bad) = None"
    and "concat reads = emit_lines (before @ bad # after)"
  shows "process_line parse bad = [] \<and>
         generateStreamingResponse cfg parse tostr (simulated_stream reads) prompt reqs =
           ((concat (map (process_line parse) before) @ concat (map (process_line parse) after),
             Inr None),
            reqs @ [chat_request cfg prompt (Some True)])"
  using streaming_lines [OF assms(1) assms(4)] unparsed_line_gives_nothing [of parse bad] assms(3)
  by simp

theorem malformed_frame_is_skipped_witness:
  "process_line example_parse ''data: {not json'' = [] \<and>
   generateStreamingResponse example_config example_parse example_tostr
     (simulated_stream [emit_lines [hel_line, ''data: {not json'', lo_line]]) ''hi'' [] =
   (([JStr ''Hel'', JStr ''lo''], Inr None), [chat_request example_config ''hi'' (Some True)])"
proof -
  have f: "list_all line_feed_free ([hel_line] @ ''data: {not json'' # [lo_line])"
    by (simp add: example_lines_free)
  have p: "take 6 ''data: {not json'' = ''data: ''" by simp
  have r: "concat [emit_lines [hel_line, ''data: {not json'', lo_line]] =
           emit_lines ([hel_line] @ ''data: {not json'' # [lo_line])"
    by simp
  from malformed_frame_is_skipped
         [where before = "[hel_line]" and bad = "''data: {not json''" and after = "[lo_line]"
            and parse = example_parse, OF f p example_unparsed r]
  show ?thesis
    by (simp add: hel_line_chunk lo_line_chunk)
qed

section \<open>Claims on construction\<close>

lemma example_key_valid: "validateApiKey ''sk-abcDEF_123-xyz''"
  by (simp add: validateApiKey_def is_key_char_def is_word_char_def)

lemma short_key_invalid: "\<not> validateApiKey ''sk-short''"
  by (simp add: validateApiKey_def is_key_char_def is_word_char_def)

text \<open>
  Claim C7. A credential that has not the recognized shape (\<^verbatim>\<open>sk-\<close> or \<^verbatim>\<open>ds-\<close>, then at
  least ten word characters or hyphens, and nothing else) makes \<^verbatim>\<open>createAIService\<close>
  fail at once with the construction error, which \<^verbatim>\<open>setApiKey\<close> records in the store; a
  credential of that shape gives a client. Either way no request is issued: the list of
  requests is the one before the call.
\<close>

theorem construction_checks_shape:
  "(\<not> recognized_shape key \<longrightarrow>
      createAIService key p reqs = (Inl (Error ''Invalid API key format''), reqs) \<and>
      setApiKey key p (store, reqs) =
        (\<lparr> st_apiKey = None, st_service = None, st_error = Some ''Invalid API key format'' \<rparr>,
         reqs)) \<and>
   (recognized_shape key \<longrightarrow>
      (\<exists>cfg. createAIService key p reqs = (Inr cfg, reqs) \<and> apiKey cfg = key \<and>
         setApiKey key p (store, reqs) =
           (\<lparr> st_apiKey = Some key, st_service = Some cfg, st_error = None \<rparr>, reqs)))"
proof (cases "validateApiKey key")
  case True
  then have "\<exists>cfg. createAIService key p reqs = (Inr cfg, reqs) \<and> apiKey cfg = key"
    by (simp add: createAIService_def AIService_def)
  then obtain cfg where c: "createAIService key p reqs = (Inr cfg, reqs)" "apiKey cfg = key"
    by blast
  then have "setApiKey key p (store, reqs) =
      (\<lparr> st_apiKey = Some key, st_service = Some cfg, st_error = None \<rparr>, reqs)"
    by (simp add: setApiKey_def)
  with c True show ?thesis
    by (auto simp: validateApiKey_shape)
next
  case False
  then have c: "createAIService key p reqs = (Inl (Error ''Invalid API key format''), reqs)"
    by (simp add: createAIService_def AIService_def)
  then have "setApiKey key p (store, reqs) =
      (\<lparr> st_apiKey = None, st_service = None, st_error = Some ''Invalid API key format'' \<rparr>,
       reqs)"
    by (simp add: setApiKey_def)
  with c False show ?thesis
    by (simp add: validateApiKey_shape)
qed

theorem construction_checks_shape_witness:
  "createAIService ''sk-short'' None [] = (Inl (Error ''Invalid API key format''), []) \<and>
   (\<exists>cfg. createAIService ''sk-abcDEF_123-xyz'' None [] = (Inr cfg, []) \<and>
      apiKey cfg = ''sk-abcDEF_123-xyz'')"
proof -
  have bad: "\<not> recognized_shape ''sk-short''"
    using short_key_invalid by (simp add: validateApiKey_shape)
  have good: "recognized_shape ''sk-abcDEF_123-xyz''"
    using example_key_valid by (simp add: validateApiKey_shape)
  from construction_checks_shape [of "''sk-short''" None "[]"] bad
       construction_checks_shape [of "''sk-abcDEF_123-xyz''" None "[]"] good
  show ?thesis by blast
qed

text \<open>
  Claim C10. The shape check does not look at the provider, and the endpoint does not
  look at the credential: for every credential of the recognized shape, whichever its
  prefix, construction succeeds with each provider, and the client holds the credential
  with the OpenAI base URL and model when the provider is \<^verbatim>\<open>openai\<close> or is not given, and
  with the DeepSeek base URL and model when the provider is \<^verbatim>\<open>deepseek\<close>. So a \<^verbatim>\<open>ds-\<close>
  credential with \<^verbatim>\<open>openai\<close> gives the OpenAI endpoint, and an \<^verbatim>\<open>sk-\<close> credential with
  \<^verbatim>\<open>deepseek\<close> the DeepSeek one.
\<close>

theorem provider_selects_endpoint:
  assumes "recognized_shape key"
  shows "createAIService key (Some Openai) reqs =
           (Inr \<lparr> baseURL = ''https://api.openai.com/v1'', apiKey = key,
                   model = ''gpt-3.5-turbo'' \<rparr>, reqs) \<and>
         createAIService key (Some Deepseek) reqs =
           (Inr \<lparr> baseURL = ''https://api.deepseek.com/v1'', apiKey = key,
                   model = ''deepseek-chat'' \<rparr>, reqs) \<and>
         createAIService key None reqs =
           (Inr \<lparr> baseURL = ''https://api.openai.com/v1'', apiKey = key,
                   model = ''gpt-3.5-turbo'' \<rparr>, reqs)"
proof -
  from assms have "validateApiKey key"
    by (simp add: validateApiKey_shape)
  then show ?thesis
    by (simp add: createAIService_def AIService_def)
qed

theorem provider_selects_endpoint_witness:
  "createAIService ''ds-abcDEF_123-xyz'' (Some Openai) [] =
     (Inr \<lparr> baseURL = ''https://api.openai.com/v1'', apiKey = ''ds-abcDEF_123-xyz'',
             model = ''gpt-3.5-turbo'' \<rparr>, []) \<and>
   createAIService ''ds-abcDEF_123-xyz'' (Some Deepseek) [] =
     (Inr \<lparr> baseURL = ''https://api.deepseek.com/v1'', apiKey = ''ds-abcDEF_123-xyz'',
             model = ''deepseek-chat'' \<rparr>, []) \<and>
   createAIService ''sk-abcDEF_123-xyz'' (Some Deepseek) [] =
     (Inr \<lparr> baseURL = ''https://api.deepseek.com/v1'', apiKey = ''sk-abcDEF_123-xyz'',
             model = ''deepseek-chat'' \<rparr>, []) \<and>
   createAIService ''sk-abcDEF_123-xyz'' (Some Openai) [] =
     (Inr \<lparr> baseURL = ''https://api.openai.com/v1'', apiKey = ''sk-abcDEF_123-xyz'',
             model = ''gpt-3.5-turbo'' \<rparr>, []) \<and>
   createAIService ''ds-abcDEF_123-xyz'' None [] =
     (Inr \<lparr> baseURL = ''https://api.openai.com/v1'', apiKey = ''ds-abcDEF_123-xyz'',
             model = ''gpt-3.5-turbo'' \<rparr>, [])"
proof -
  have "validateApiKey ''ds-abcDEF_123-xyz''"
    by (simp add: validateApiKey_def is_key_char_def is_word_char_def)
  then have ds: "recognized_shape ''ds-abcDEF_123-xyz''"
    by (simp add: validateApiKey_shape)
  have sk: "recognized_shape ''sk-abcDEF_123-xyz''"
    using example_key_valid by (simp add: validateApiKey_shape)
  from provider_selects_endpoint [OF ds, of "[]"] provider_selects_endpoint [OF sk, of "[]"]
  show ?thesis by simp
qed

section \<open>Claims on the buffered completion\<close>

text \<open>
  Claim C9. For a prompt that is empty or holds white space only, \<^verbatim>\<open>generateResponse\<close>
  returns the fixed text \<^verbatim>\<open>No content to analyze. Please provide input.\<close>, raises no
  error and issues no request.
\<close>

theorem blank_prompt_fixed_reply:
  assumes "list_all is_js_space prompt"
  shows "generateResponse cfg tostr net prompt reqs =
           ((0, Inr (Some (JStr ''No content to analyze. Please provide input.''))), reqs)"
  using assms by (simp add: generateResponse_def trim_eq_Nil)

theorem blank_prompt_fixed_reply_witness:
  "generateResponse example_config example_tostr (numbered_reply []) [CHR '' '', CHR 0x09, CHR 0x0A] [] =
     ((0, Inr (Some (JStr ''No content to analyze. Please provide input.''))), []) \<and>
   generateResponse example_config example_tostr (numbered_reply []) [] [] =
     ((0, Inr (Some (JStr ''No content to analyze. Please provide input.''))), [])"
proof -
  have a: "list_all is_js_space [CHR '' '', CHR 0x09, CHR 0x0A]"
    by (simp add: is_js_space_def)
  have b: "list_all is_js_space []" by simp
  from blank_prompt_fixed_reply [OF a] blank_prompt_fixed_reply [OF b] show ?thesis by simp
qed

text \<open>
  Claim C8, as amended. \<^verbatim>\<open>generateResponse\<close> issues its request with the bound of 30000
  milliseconds, and every failure of the transport is surfaced as an error, told apart
  by its message: the timeout message on the axios code \<^verbatim>\<open>ECONNABORTED\<close>, the invalid key
  message on status 401, the rate limit message on status 429, and on every other axios
  error \<^verbatim>\<open>API error:\<close> followed by the provider's message when the response holds one
  and by axios' message otherwise (so by axios' message on a transport-level failure,
  which has no response). Anything that is no axios error gives
  \<^verbatim>\<open>Failed to connect to API\<close>, as does the \<^verbatim>\<open>TypeError\<close> of reading
  \<^verbatim>\<open>choices[0].message.content\<close> from a response that lacks \<^verbatim>\<open>choices\<close>, an element or
  \<^verbatim>\<open>message\<close>. A response from which that read raises nothing is returned as it is read.
\<close>

theorem buffered_failures_surface:
  assumes "trim prompt \<noteq> []"
    and "snd (net (length reqs) (chat_request cfg prompt None)) = out"
  shows
    "snd (generateResponse cfg tostr net prompt reqs) = reqs @ [chat_request cfg prompt None] \<and>
     req_timeout_ms (chat_request cfg prompt None) = 30000 \<and>
     (out = AxiosError e \<and> ax_code e = Some ''ECONNABORTED'' \<longrightarrow>
        snd (fst (generateResponse cfg tostr net prompt reqs)) =
          Inl (Error ''Request timed out. Please try again.'')) \<and>
     (out = AxiosError e \<and> ax_code e \<noteq> Some ''ECONNABORTED'' \<and>
        map_option fst (ax_response e) = Some 401 \<longrightarrow>
        snd (fst (generateResponse cfg tostr net prompt reqs)) =
          Inl (Error ''Invalid API key. Please check your API key and try again.'')) \<and>
     (out = AxiosError e \<and> ax_code e \<noteq> Some ''ECONNABORTED'' \<and>
        map_option fst (ax_response e) = Some 429 \<longrightarrow>
        snd (fst (generateResponse cfg tostr net prompt reqs)) =
          Inl (Error ''Rate limit exceeded. Please try again in a few moments.'')) \<and>
     (out = AxiosError e \<and> ax_code e \<noteq> Some ''ECONNABORTED'' \<and>
        map_option fst (ax_response e) \<noteq> Some 401 \<and>
        map_option fst (ax_response e) \<noteq> Some 429 \<longrightarrow>
        snd (fst (generateResponse cfg tostr net prompt reqs)) =
          Inl (Error (''API error: '' @
            (if truthy (opt_dot (opt_dot (map_option snd (ax_response e)) ''error'') ''message'')
             then template tostr
                    (opt_dot (opt_dot (map_option snd (ax_response e)) ''error'') ''message'')
             else ax_message e)))) \<and>
     (out = AxiosError e \<and> ax_code e \<noteq> Some ''ECONNABORTED'' \<and> ax_response e = None \<longrightarrow>
        snd (fst (generateResponse cfg tostr net prompt reqs)) =
          Inl (Error (''API error: '' @ ax_message e))) \<and>
     (out = AxiosError e \<longrightarrow>
        (\<exists>m. snd (fst (generateResponse cfg tostr net prompt reqs)) = Inl (Error m))) \<and>
     (out = Thrown x \<longrightarrow>
        snd (fst (generateResponse cfg tostr net prompt reqs)) =
          Inl (Error ''Failed to connect to API. Please try again.'')) \<and>
     (out = Resolved d \<and> response_content d = Inl x \<longrightarrow>
        snd (fst (generateResponse cfg tostr net prompt reqs)) =
          Inl (Error ''Failed to connect to API. Please try again.'')) \<and>
     (out = Resolved d \<and> response_content d = Inr v \<longrightarrow>
        snd (fst (generateResponse cfg tostr net prompt reqs)) = Inr v)"
proof -
  have issued: "snd (generateResponse cfg tostr net prompt reqs) =
      reqs @ [chat_request cfg prompt None]"
    using assms(1) by (rule generateResponse_issues)
  have bound: "req_timeout_ms (chat_request cfg prompt None) = 30000"
    by (simp add: chat_request_def)
  have outcome: "snd (fst (generateResponse cfg tostr net prompt reqs)) =
      (case out of
         Resolved d \<Rightarrow>
           (case response_content d of
              Inr v \<Rightarrow> Inr v
            | Inl e \<Rightarrow> Inl (Error ''Failed to connect to API. Please try again.''))
       | AxiosError e \<Rightarrow> Inl (classify_axios tostr e)
       | Thrown e \<Rightarrow> Inl (Error ''Failed to connect to API. Please try again.''))"
    using assms by (simp add: generateResponse_def Let_def)
  show ?thesis
    unfolding outcome using issued bound
    by (auto simp: classify_axios_def Let_def)
qed

theorem buffered_failures_surface_witness:
  "snd (fst (generateResponse example_config example_tostr
       (constant_reply (AxiosError timeout_error)) ''hi'' [])) =
     Inl (Error ''Request timed out. Please try again.'') \<and>
   snd (fst (generateResponse example_config example_tostr
       (constant_reply (AxiosError unauthorized_error)) ''hi'' [])) =
     Inl (Error ''Invalid API key. Please check your API key and try again.'') \<and>
   snd (fst (generateResponse example_config example_tostr
       (constant_reply (AxiosError server_error)) ''hi'' [])) =
     Inl (Error ''API error: server exploded'') \<and>
   snd (fst (generateResponse example_config example_tostr
       (constant_reply (AxiosError network_error)) ''hi'' [])) =
     Inl (Error ''API error: Network Error'') \<and>
   snd (fst (generateResponse example_config example_tostr
       (constant_reply (Resolved JNull)) ''hi'' [])) =
     Inl (Error ''Failed to connect to API. Please try again.'') \<and>
   snd (fst (generateResponse example_config example_tostr
       (constant_reply (Resolved (message_value ''ok''))) ''hi'' [])) =
     Inr (Some (JStr ''ok'')) \<and>
   snd (generateResponse example_config example_tostr
       (constant_reply (AxiosError timeout_error)) ''hi'' []) =
     [chat_request example_config ''hi'' None] \<and>
   req_timeout_ms (chat_request example_config ''hi'' None) = 30000"
proof -
  have p: "trim ''hi'' \<noteq> []"
    by (simp add: trim_eq_Nil is_js_space_def)
  have null: "response_content JNull = Inl TypeError"
    by (simp add: response_content_def)
  have ok: "response_content (message_value ''ok'') = Inr (Some (JStr ''ok''))"
    by simp
  note t = buffered_failures_surface [where prompt = "''hi''" and reqs = "[]"
      and cfg = example_config and tostr = example_tostr, OF p]
  from t [where net = "constant_reply (AxiosError timeout_error)" and e = timeout_error]
       t [where net = "constant_reply (AxiosError unauthorized_error)" and e = unauthorized_error]
       t [where net = "constant_reply (AxiosError server_error)" and e = server_error]
       t [where net = "constant_reply (AxiosError network_error)" and e = network_error]
       t [where net = "constant_reply (Resolved JNull)" and d = JNull and x = TypeError]
       t [where net = "constant_reply (Resolved (message_value ''ok''))"
            and d = "message_value ''ok''" and v = "Some (JStr ''ok'')"]
  show ?thesis
    by (simp add: constant_reply_def timeout_error_def unauthorized_error_def
          server_error_def network_error_def null)
qed

text \<open>
  The claim as written has every response that is not of the expected shape fail as
  malformed. A response whose message holds no content is not of the expected shape, and
  the call returns \<^verbatim>\<open>undefined\<close> with no error.
\<close>

theorem contentless_response_is_returned:
  "\<not> expected_shape contentless_response \<and>
   generateResponse example_config example_tostr
       (constant_reply (Resolved contentless_response)) ''hi'' [] =
     ((0, Inr None), [chat_request example_config ''hi'' None])"
  by (simp add: expected_shape_def contentless_response_def response_content_def
        generateResponse_def constant_reply_def trim_eq_Nil is_js_space_def)

section \<open>Claims on chunked documents\<close>

lemma splitDocument_sizes:
  "0 < budget \<Longrightarrow> list_all (\<lambda>c. c \<noteq> [] \<and> length c \<le> budget) (splitDocument doc budget)"
proof (induction doc budget rule: splitDocument.induct)
  case (1 doc budget)
  show ?case
  proof (cases "doc = []")
    case True
    then show ?thesis by (simp add: splitDocument.simps)
  next
    case False
    with 1 have "list_all (\<lambda>c. c \<noteq> [] \<and> length c \<le> budget) (splitDocument (drop budget doc) budget)"
      by simp
    with False 1(2) show ?thesis
      by (subst splitDocument.simps) simp
  qed
qed

lemma concat_splitDocument: "0 < budget \<Longrightarrow> concat (splitDocument doc budget) = doc"
proof (induction doc budget rule: splitDocument.induct)
  case (1 doc budget)
  show ?case
  proof (cases "doc = []")
    case True
    then show ?thesis by (simp add: splitDocument.simps)
  next
    case False
    with 1 have "concat (splitDocument (drop budget doc) budget) = drop budget doc" by simp
    with False 1(2) show ?thesis
      by (subst splitDocument.simps) simp
  qed
qed

text \<open>
  Claim C2. For every document and every budget above zero, the chunks of
  \<^verbatim>\<open>splitDocument\<close>, concatenated in order, are the document: nothing is lost, repeated
  or trimmed. No chunk is empty and none is longer than the budget. The chunks are a
  function of the document and the budget, so the same input gives the same chunks.
\<close>

theorem split_round_trip:
  assumes "0 < budget"
  shows "concat (splitDocument doc budget) = doc \<and>
         list_all (\<lambda>c. c \<noteq> [] \<and> length c \<le> budget) (splitDocument doc budget)"
  using assms by (simp add: concat_splitDocument splitDocument_sizes)

theorem split_round_trip_witness:
  "splitDocument ''hello world'' 4 = [''hell'', ''o wo'', ''rld''] \<and>
   concat (splitDocument ''hello world'' 4) = ''hello world''"
proof -
  have "(0::nat) < 4" by simp
  from split_round_trip [OF this, of "''hello world''"] show ?thesis
    by (simp add: splitDocument.simps)
qed

lemma join_item_string [simp]: "join_item tostr \<circ> (\<lambda>s. Some (JStr s)) = (\<lambda>s. s)"
  by (rule ext) simp

lemma generateSummary_resolved:
  assumes "chunkText doc = chunks" and "length replies = length chunks"
    and "\<forall>i<length chunks.
           snd (net (length reqs + i) (section_request cfg (chunks ! i))) =
             Resolved (message_value (replies ! i))"
  shows "generateSummary cfg tostr net chunkText doc reqs =
           (if 4000 < length (join [CHR 0x0A, CHR 0x0A] replies) then
              (snd (fst (generateResponse cfg tostr net
                     (merge_prompt (join [CHR 0x0A, CHR 0x0A] replies))
                     (reqs @ map (section_request cfg) chunks))),
               reqs @ map (section_request cfg) chunks @
                 [chat_request cfg (merge_prompt (join [CHR 0x0A, CHR 0x0A] replies)) None])
            else (Inr (Some (JStr (join [CHR 0x0A, CHR 0x0A] replies))),
                  reqs @ map (section_request cfg) chunks))"
  using chunk_calls_resolved [OF assms(2,3), of tostr] assms(1)
  by (simp add: generateSummary_def Let_def chunk_calls_issued generateResponse_issues)

lemma chunks_of_two: "chunks_of 2 ''wxyz'' = [''wx'', ''yz'']"
  by (simp add: chunks_of_def splitDocument.simps)

lemma chunks_of_9000:
  assumes "length doc = 9000"
  shows "chunks_of 4000 doc = [take 4000 doc, take 4000 (drop 4000 doc), drop 8000 doc]"
proof -
  from assms have a: "doc \<noteq> []" "drop 4000 doc \<noteq> []" "drop 8000 doc \<noteq> []" by auto
  have "splitDocument (drop 8000 doc) 4000 = [drop 8000 doc]"
    using assms a(3) by (subst splitDocument.simps, subst splitDocument.simps) simp
  then have "splitDocument (drop 4000 doc) 4000 = [take 4000 (drop 4000 doc), drop 8000 doc]"
    using a(2) by (subst splitDocument.simps) simp
  then show ?thesis
    using a(1) by (simp add: chunks_of_def) (subst splitDocument.simps, simp)
qed

lemma join_three_length:
  assumes "length a = 50" and "length b = 50" and "length c = 50"
  shows "length (join [CHR 0x0A, CHR 0x0A] [a, b, c]) = 154"
  using assms by simp

text \<open>
  Claim C3, as amended. Let the per-chunk completions all succeed, the \<open>i\<close>-th with the
  text \<open>replies ! i\<close>, and let the combined summary be these texts in chunk order,
  joined by blank lines (two line feeds between neighbours). \<^verbatim>\<open>generateSummary\<close> issues
  one request for each chunk, in order. If the combined summary is longer than 4000, it
  issues exactly one more request, the merge call on the combined summary, and returns
  what that call gives. Otherwise it issues no further request and returns the combined
  summary.
\<close>

theorem summary_merge_threshold:
  assumes "chunkText doc = chunks" and "length replies = length chunks"
    and "\<forall>i<length chunks.
           snd (net (length reqs + i) (section_request cfg (chunks ! i))) =
             Resolved (message_value (replies ! i))"
  shows
    "(4000 < length (join [CHR 0x0A, CHR 0x0A] replies) \<longrightarrow>
        generateSummary cfg tostr net chunkText doc reqs =
          (snd (fst (generateResponse cfg tostr net
                 (merge_prompt (join [CHR 0x0A, CHR 0x0A] replies))
                 (reqs @ map (section_request cfg) chunks))),
           reqs @ map (section_request cfg) chunks @
             [chat_request cfg (merge_prompt (join [CHR 0x0A, CHR 0x0A] replies)) None])) \<and>
     (length (join [CHR 0x0A, CHR 0x0A] replies) \<le> 4000 \<longrightarrow>
        generateSummary cfg tostr net chunkText doc reqs =
          (Inr (Some (JStr (join [CHR 0x0A, CHR 0x0A] replies))),
           reqs @ map (section_request cfg) chunks))"
  using generateSummary_resolved [where chunkText = chunkText and doc = doc and tostr = tostr, OF assms]
  by simp

theorem summary_merge_threshold_witness:
  "generateSummary example_config example_tostr
     (numbered_reply [message_value long_summary, message_value long_summary, message_value ''all''])
     (chunks_of 2) ''wxyz'' [] =
     (Inr (Some (JStr ''all'')),
      [section_request example_config ''wx'', section_request example_config ''yz'',
       chat_request example_config
         (merge_prompt (long_summary @ [CHR 0x0A, CHR 0x0A] @ long_summary)) None]) \<and>
   generateSummary example_config example_tostr
     (numbered_reply [message_value ''a'', message_value ''b'']) (chunks_of 2) ''wxyz'' [] =
     (Inr (Some (JStr (''a'' @ [CHR 0x0A, CHR 0x0A] @ ''b''))),
      [section_request example_config ''wx'', section_request example_config ''yz''])"
proof -
  have l1: "length [long_summary, long_summary] = length [''wx'', ''yz'']"
    by simp
  have n1: "\<forall>i<length [''wx'', ''yz''].
      snd (numbered_reply [message_value long_summary, message_value long_summary, message_value ''all'']
             (length ([] :: request list) + i) (section_request example_config ([''wx'', ''yz''] ! i))) =
        Resolved (message_value ([long_summary, long_summary] ! i))"
    by (simp add: numbered_reply_def less_Suc_eq)
  have l2: "length [''a'', ''b''] = length [''wx'', ''yz'']"
    by simp
  have n2: "\<forall>i<length [''wx'', ''yz''].
      snd (numbered_reply [message_value ''a'', message_value ''b'']
             (length ([] :: request list) + i) (section_request example_config ([''wx'', ''yz''] ! i))) =
        Resolved (message_value ([''a'', ''b''] ! i))"
    by (simp add: numbered_reply_def less_Suc_eq)
  have big: "4000 < length (join [CHR 0x0A, CHR 0x0A] [long_summary, long_summary])"
    by (simp add: long_summary_def)
  have small: "length (join [CHR 0x0A, CHR 0x0A] [''a'', ''b'']) \<le> 4000"
    by simp
  have m: "snd (fst (generateResponse example_config example_tostr
       (numbered_reply [message_value long_summary, message_value long_summary, message_value ''all''])
       (merge_prompt (join [CHR 0x0A, CHR 0x0A] [long_summary, long_summary]))
       ([] @ map (section_request example_config) [''wx'', ''yz'']))) = Inr (Some (JStr ''all''))"
    by (simp add: generateResponse_def Let_def numbered_reply_def)
  note t = summary_merge_threshold [where chunkText = "chunks_of 2" and doc = "''wxyz''"
      and tostr = example_tostr, OF chunks_of_two]
  from t [OF l1 n1] big m t [OF l2 n2] small
  show ?thesis
    by simp
qed

text \<open>
  The claim as written compares the plain concatenation of the summaries with the
  budget. Summaries of 2000 and 1999 characters concatenate to 3999 characters, under
  the budget, and the merge call is issued all the same, since the two line feeds
  between them count.
\<close>

theorem merge_call_below_budget:
  "length (long_summary @ near_summary) < 4000 \<and>
   generateSummary example_config example_tostr
     (numbered_reply [message_value long_summary, message_value near_summary, message_value ''all''])
     (chunks_of 2) ''wxyz'' [] =
     (Inr (Some (JStr ''all'')),
      [section_request example_config ''wx'', section_request example_config ''yz'',
       chat_request example_config
         (merge_prompt (long_summary @ [CHR 0x0A, CHR 0x0A] @ near_summary)) None])"
proof -
  have l1: "length [long_summary, near_summary] = length [''wx'', ''yz'']"
    by simp
  have n1: "\<forall>i<length [''wx'', ''yz''].
      snd (numbered_reply [message_value long_summary, message_value near_summary, message_value ''all'']
             (length ([] :: request list) + i) (section_request example_config ([''wx'', ''yz''] ! i))) =
        Resolved (message_value ([long_summary, near_summary] ! i))"
    by (simp add: numbered_reply_def less_Suc_eq)
  have big: "4000 < length (join [CHR 0x0A, CHR 0x0A] [long_summary, near_summary])"
    by (simp add: long_summary_def near_summary_def)
  have m: "snd (fst (generateResponse example_config example_tostr
       (numbered_reply [message_value long_summary, message_value near_summary, message_value ''all''])
       (merge_prompt (join [CHR 0x0A, CHR 0x0A] [long_summary, near_summary]))
       ([] @ map (section_request example_config) [''wx'', ''yz'']))) = Inr (Some (JStr ''all''))"
    by (simp add: generateResponse_def Let_def numbered_reply_def)
  have "length (long_summary @ near_summary) < 4000"
    by (simp add: long_summary_def near_summary_def)
  with generateSummary_resolved [where chunkText = "chunks_of 2" and doc = "''wxyz''"
      and tostr = example_tostr, OF chunks_of_two l1 n1] big m
  show ?thesis
    by simp
qed

text \<open>
  Claim C4, as amended. A document of 9000 characters and a chunk budget of 4000 give
  three chunks of lengths 4000, 4000 and 1000. When the three completions give summaries
  of 50 characters each, \<^verbatim>\<open>generateSummary\<close> returns the three summaries joined by blank
  lines, 154 characters, and issues the three chunk requests and no merge call.
\<close>

theorem nine_thousand_scenario:
  assumes "length doc = 9000"
    and "length a = 50" and "length b = 50" and "length c = 50"
    and "\<forall>i<3. snd (net (length reqs + i) (section_request cfg (chunks_of 4000 doc ! i))) =
                  Resolved (message_value ([a, b, c] ! i))"
  shows "map length (chunks_of 4000 doc) = [4000, 4000, 1000] \<and>
         generateSummary cfg tostr net (chunks_of 4000) doc reqs =
           (Inr (Some (JStr (a @ [CHR 0x0A, CHR 0x0A] @ b @ [CHR 0x0A, CHR 0x0A] @ c))),
            reqs @ map (section_request cfg) (chunks_of 4000 doc)) \<and>
         length (a @ [CHR 0x0A, CHR 0x0A] @ b @ [CHR 0x0A, CHR 0x0A] @ c) = 154"
proof -
  let ?chunks = "[take 4000 doc, take 4000 (drop 4000 doc), drop 8000 doc]"
  have ch: "chunks_of 4000 doc = ?chunks"
    by (rule chunks_of_9000 [OF assms(1)])
  have l: "length [a, b, c] = length ?chunks" by simp
  have n: "\<forall>i<length ?chunks.
      snd (net (length reqs + i) (section_request cfg (?chunks ! i))) =
        Resolved (message_value ([a, b, c] ! i))"
    using assms(5) ch by simp
  have small: "\<not> 4000 < length (join [CHR 0x0A, CHR 0x0A] [a, b, c])"
    using assms(2-4) by simp
  from generateSummary_resolved [where chunkText = "chunks_of 4000" and doc = doc
      and tostr = tostr, OF ch l n] small
  have "generateSummary cfg tostr net (chunks_of 4000) doc reqs =
           (Inr (Some (JStr (a @ [CHR 0x0A, CHR 0x0A] @ b @ [CHR 0x0A, CHR 0x0A] @ c))),
            reqs @ map (section_request cfg) (chunks_of 4000 doc))"
    by (simp add: ch)
  moreover have "map length (chunks_of 4000 doc) = [4000, 4000, 1000]"
    using assms(1) by (simp add: ch)
  ultimately show ?thesis using assms(2-4) by simp
qed

theorem nine_thousand_scenario_witness:
  "map length (chunks_of 4000 long_document) = [4000, 4000, 1000] \<and>
   generateSummary example_config example_tostr
       (constant_reply (Resolved (message_value short_summary))) (chunks_of 4000) long_document [] =
     (Inr (Some (JStr (short_summary @ [CHR 0x0A, CHR 0x0A] @ short_summary @
                       [CHR 0x0A, CHR 0x0A] @ short_summary))),
      [] @ map (section_request example_config) (chunks_of 4000 long_document)) \<and>
   length (short_summary @ [CHR 0x0A, CHR 0x0A] @ short_summary @
           [CHR 0x0A, CHR 0x0A] @ short_summary) = 154"
proof -
  have d: "length long_document = 9000" by (simp add: long_document_def)
  have s: "length short_summary = 50" by (simp add: short_summary_def)
  have n: "\<forall>i<3. snd (constant_reply (Resolved (message_value short_summary))
                     (length ([] :: request list) + i)
                     (section_request example_config (chunks_of 4000 long_document ! i))) =
                  Resolved (message_value ([short_summary, short_summary, short_summary] ! i))"
    by (simp add: constant_reply_def less_Suc_eq numeral_3_eq_3)
  from nine_thousand_scenario [OF d s s s n, of example_tostr] show ?thesis .
qed

text \<open>
  The claim as written has 150 characters returned. On the scenario the text returned
  holds the two separators as well and is 154 characters long.
\<close>

theorem scenario_summary_has_separators:
  "fst (generateSummary example_config example_tostr
       (constant_reply (Resolved (message_value short_summary))) (chunks_of 4000) long_document []) =
     Inr (Some (JStr (short_summary @ [CHR 0x0A, CHR 0x0A] @ short_summary @
                      [CHR 0x0A, CHR 0x0A] @ short_summary))) \<and>
   length (short_summary @ [CHR 0x0A, CHR 0x0A] @ short_summary @
           [CHR 0x0A, CHR 0x0A] @ short_summary) = 154"
proof -
  let ?chunks = "[take 4000 long_document, take 4000 (drop 4000 long_document),
                  drop 8000 long_document]"
  have ch: "chunks_of 4000 long_document = ?chunks"
    by (rule chunks_of_9000) (simp add: long_document_def)
  have l: "length [short_summary, short_summary, short_summary] = length ?chunks" by simp
  have n: "\<forall>i<length ?chunks.
      snd (constant_reply (Resolved (message_value short_summary))
             (length ([] :: request list) + i) (section_request example_config (?chunks ! i))) =
        Resolved (message_value ([short_summary, short_summary, short_summary] ! i))"
    by (simp add: constant_reply_def less_Suc_eq)
  have s: "length short_summary = 50" by (simp add: short_summary_def)
  from generateSummary_resolved [where chunkText = "chunks_of 4000" and doc = long_document
      and tostr = example_tostr, OF ch l n] s
  show ?thesis by simp
qed

end
